theory Spec2Isabelle
  imports Main
begin

section \<open>The Slack mention handler of main.py\<close>

text \<open>
  The only function of the script is \<open>handle_app_mention(say, body)\<close>. It reads
  \<open>body['event']['text']\<close> and \<open>body['event']['user']\<close>, posts an acknowledgement
  and a final answer through the callback \<open>say\<close>, and answers every exception of the
  \<open>try\<close> block with one error reply. The agent, toolkit and database wiring are
  comments in the source; the response is a dictionary literal.
\<close>

subsection \<open>Exceptions\<close>

text \<open>
  \<open>KeyError k\<close> is raised by a dictionary subscript with a missing key \<open>k\<close>,
  \<open>IndexError m\<close> by a list subscript out of range (with message \<open>m\<close>).
  \<open>CallbackError b m\<close> is whatever the callback \<open>say\<close> raises: \<open>b\<close> tells whether
  it derives from \<open>Exception\<close> (so that \<open>except Exception\<close> catches it) and \<open>m\<close> is
  its \<open>str()\<close>.
\<close>

datatype exn = KeyError string | IndexError string | CallbackError bool string

fun is_Exception :: "exn \<Rightarrow> bool" where
  "is_Exception (KeyError k) = True"
| "is_Exception (IndexError m) = True"
| "is_Exception (CallbackError b m) = b"

text \<open>
  \<open>str(e)\<close>, as the f-strings of the \<open>except\<close> branch format it. For a
  \<open>KeyError\<close> it is the \<open>repr\<close> of the key: the key between single quotes, for
  the keys of this script (letters only).
\<close>

definition quote :: char where
  "quote = CHR 0x27"

fun str_exn :: "exn \<Rightarrow> string" where
  "str_exn (KeyError k) = [quote] @ k @ [quote]"
| "str_exn (IndexError m) = m"
| "str_exn (CallbackError b m) = m"

subsection \<open>The event body\<close>

text \<open>
  A Python dictionary with string keys is an association list read with \<open>map_of\<close>.
  The body is the payload of the Events API: \<open>event\<close> is the object under the key
  \<open>'event'\<close> when the body has one, a dictionary of string fields (\<open>text\<close>,
  \<open>user\<close>, \<open>channel\<close>, \<open>ts\<close>, ...); \<open>envelope\<close> holds the other top-level
  fields (\<open>token\<close>, \<open>team_id\<close>, ...).
\<close>

type_synonym 'v dict = "(string \<times> 'v) list"

record body =
  event :: "string dict option"
  envelope :: "string dict"

text \<open>\<open>d[k]\<close> on a dictionary: the value, or \<open>KeyError\<close>.\<close>

definition getitem :: "'v dict \<Rightarrow> string \<Rightarrow> exn + 'v" where
  "getitem d k = (case map_of d k of None \<Rightarrow> Inl (KeyError k) | Some v \<Rightarrow> Inr v)"

text \<open>\<open>body['event']\<close>.\<close>

definition body_event :: "body \<Rightarrow> exn + string dict" where
  "body_event b = (case event b of None \<Rightarrow> Inl (KeyError ''event'') | Some ev \<Rightarrow> Inr ev)"

text \<open>\<open>body['event'][k]\<close>: the two subscripts in order.\<close>

definition body_event_field :: "body \<Rightarrow> string \<Rightarrow> exn + string" where
  "body_event_field b k = (case body_event b of Inl e \<Rightarrow> Inl e | Inr ev \<Rightarrow> getitem ev k)"

subsection \<open>String operations\<close>

text \<open>
  \<open>s.split(' ', 1)\<close>: at most one split, at the first space. Without a space the
  result is the one-element list \<open>[s]\<close>.
\<close>

definition split_space_1 :: "string \<Rightarrow> string list" where
  "split_space_1 s =
     (case dropWhile (\<lambda>c. c \<noteq> CHR '' '') s of
        [] \<Rightarrow> [s]
      | c # rest \<Rightarrow> [takeWhile (\<lambda>c. c \<noteq> CHR '' '') s, rest])"

text \<open>\<open>xs[i]\<close> on a list, for an index that is not negative.\<close>

definition list_getitem :: "'a list \<Rightarrow> nat \<Rightarrow> exn + 'a" where
  "list_getitem xs i =
     (if i < length xs then Inr (xs ! i) else Inl (IndexError ''list index out of range''))"

text \<open>\<open>needle in haystack\<close> on strings.\<close>

fun starts_with :: "string \<Rightarrow> string \<Rightarrow> bool" where
  "starts_with [] s = True"
| "starts_with (c # cs) [] = False"
| "starts_with (c # cs) (d # ds) = (c = d \<and> starts_with cs ds)"

fun contains :: "string \<Rightarrow> string \<Rightarrow> bool" where
  "contains needle [] = (needle = [])"
| "contains needle (c # cs) = (starts_with needle (c # cs) \<or> contains needle cs)"

subsection \<open>Effects\<close>

text \<open>
  What the handler does to the outside is a trace of effects. \<open>Say t\<close> is a call
  \<open>say(t)\<close>; \<open>LogInfo\<close> and \<open>LogError\<close> are the calls of the module's logger.
  The module also builds an LLM client (\<open>llm\<close>) and, in comments, a database engine and
  an SQL agent: \<open>LlmInvoke\<close>, \<open>AgentInvoke\<close> and \<open>DbExecute\<close> stand for calls to
  them.
\<close>

datatype logmsg =
    Text string
  | AgentResponse "string dict"

datatype effect =
    Say string
  | LogInfo logmsg
  | LogError logmsg
  | LlmInvoke string
  | AgentInvoke string
  | DbExecute string

text \<open>The texts passed to \<open>say\<close>, in order.\<close>

fun says :: "effect list \<Rightarrow> string list" where
  "says [] = []"
| "says (Say t # tr) = t # says tr"
| "says (LogInfo m # tr) = says tr"
| "says (LogError m # tr) = says tr"
| "says (LlmInvoke p # tr) = says tr"
| "says (AgentInvoke q # tr) = says tr"
| "says (DbExecute q # tr) = says tr"

fun is_say_or_log :: "effect \<Rightarrow> bool" where
  "is_say_or_log (Say t) = True"
| "is_say_or_log (LogInfo m) = True"
| "is_say_or_log (LogError m) = True"
| "is_say_or_log (LlmInvoke p) = False"
| "is_say_or_log (AgentInvoke q) = False"
| "is_say_or_log (DbExecute q) = False"

text \<open>
  The callback \<open>say\<close> belongs to the caller: it acts on a state \<open>'w\<close> of its own and
  either returns (\<open>None\<close>) or raises (\<open>Some e\<close>).
\<close>

type_synonym 'w say = "string \<Rightarrow> 'w \<Rightarrow> exn option \<times> 'w"

record 'w state =
  trace :: "effect list"
  world :: 'w

definition call_say :: "'w say \<Rightarrow> string \<Rightarrow> 'w state \<Rightarrow> (exn + unit) \<times> 'w state" where
  "call_say say t s =
     (case say t (world s) of
        (r, w') \<Rightarrow>
          ((case r of None \<Rightarrow> Inr () | Some e \<Rightarrow> Inl e),
           \<lparr>trace = trace s @ [Say t], world = w'\<rparr>))"

definition log_info :: "logmsg \<Rightarrow> 'w state \<Rightarrow> 'w state" where
  "log_info m s = s\<lparr>trace := trace s @ [LogInfo m]\<rparr>"

definition log_error :: "logmsg \<Rightarrow> 'w state \<Rightarrow> 'w state" where
  "log_error m s = s\<lparr>trace := trace s @ [LogError m]\<rparr>"

subsection \<open>The messages\<close>

definition newline :: char where
  "newline = CHR 0x0A"

definition ack_message :: "string \<Rightarrow> string" where
  "ack_message user_id =
     ''Hey <@'' @ user_id @ ''>, I'' @ [quote] @ ''m on it! Let me check the data for you...''"

definition final_message :: "string \<Rightarrow> string" where
  "final_message output = ''Here is what I found:'' @ [newline, newline] @ output"

definition error_message :: "exn \<Rightarrow> string" where
  "error_message e =
     ''Oops! I ran into an issue. Could you please rephrase your request? The error was: ''
       @ str_exn e"

subsection \<open>The handler\<close>

text \<open>
  The \<open>try\<close> block, statement by statement. The first exception ends it, with the
  state reached so far.
\<close>

definition try_block :: "'w say \<Rightarrow> body \<Rightarrow> 'w state \<Rightarrow> (exn + unit) \<times> 'w state" where
  "try_block say b s =
     (case body_event_field b ''text'' of
        Inl e \<Rightarrow> (Inl e, s)
      | Inr text \<Rightarrow>
     (case list_getitem (split_space_1 text) 1 of
        Inl e \<Rightarrow> (Inl e, s)
      | Inr text_without_mention \<Rightarrow>
     (case body_event_field b ''user'' of
        Inl e \<Rightarrow> (Inl e, s)
      | Inr user_id \<Rightarrow>
     (let s1 = log_info
                 (Text (''Received query from user '' @ user_id @ '': '' @ text_without_mention)) s
      in
     (case call_say say (ack_message user_id) s1 of
        (Inl e, s2) \<Rightarrow> (Inl e, s2)
      | (Inr u, s2) \<Rightarrow>
     (let response = [(''input'', text_without_mention), (''output'', ''Hello World!'')];
          s3 = log_info (AgentResponse response) s2
      in
     (case getitem response ''output'' of
        Inl e \<Rightarrow> (Inl e, s3)
      | Inr output \<Rightarrow> call_say say (final_message output) s3)))))))"

text \<open>
  The handler: the \<open>try\<close> block and \<open>except Exception as e\<close>. An exception that
  is not an \<open>Exception\<close>, or one raised by \<open>say\<close> inside the \<open>except\<close> branch,
  leaves the handler.
\<close>

datatype outcome = Returned | Raised exn

definition except_branch :: "'w say \<Rightarrow> exn \<Rightarrow> 'w state \<Rightarrow> outcome \<times> 'w state" where
  "except_branch say e s =
     (let s1 = log_error (Text (''An error occurred: '' @ str_exn e)) s
      in case call_say say (error_message e) s1 of
           (Inl e', s2) \<Rightarrow> (Raised e', s2)
         | (Inr u, s2) \<Rightarrow> (Returned, s2))"

definition handle_app_mention :: "'w say \<Rightarrow> body \<Rightarrow> 'w \<Rightarrow> outcome \<times> 'w state" where
  "handle_app_mention say b w =
     (case try_block say b \<lparr>trace = [], world = w\<rparr> of
        (Inr u, s) \<Rightarrow> (Returned, s)
      | (Inl e, s) \<Rightarrow> if is_Exception e then except_branch say e s else (Raised e, s))"

text \<open>The messages one run passes to \<open>say\<close>.\<close>

definition posted :: "'w say \<Rightarrow> body \<Rightarrow> 'w \<Rightarrow> string list" where
  "posted say b w = says (trace (snd (handle_app_mention say b w)))"

text \<open>A callback that always returns, on a world that counts its calls.\<close>

definition say_ok :: "nat say" where
  "say_ok t w = (None, Suc w)"

text \<open>Bodies used to run the handler on concrete inputs.\<close>

definition body_bare_mention :: body where
  "body_bare_mention = \<lparr>event = Some [(''text'', ''<@U0BOT>'')], envelope = []\<rparr>"

definition body_without_user :: body where
  "body_without_user = \<lparr>event = Some [(''text'', ''<@U0BOT> hi'')], envelope = []\<rparr>"

definition body_active_users :: body where
  "body_active_users =
     \<lparr>event = Some [(''text'', ''<@U0BOT> how many active users are there''),
                    (''user'', ''U1'')],
      envelope = []\<rparr>"

definition body_active_users_other_fields :: body where
  "body_active_users_other_fields =
     \<lparr>event = Some [(''type'', ''app_mention''), (''channel'', ''C7''), (''user'', ''U1''),
                    (''text'', ''<@U0BOT> how many active users are there''),
                    (''ts'', ''1700000000.000100'')],
      envelope = [(''team_id'', ''T1''), (''type'', ''event_callback'')]\<rparr>"

section \<open>Properties\<close>

subsection \<open>Splitting and searching strings\<close>

lemma split_no_space:
  assumes "CHR '' '' \<notin> set s"
  shows "split_space_1 s = [s]"
proof -
  from assms have d: "dropWhile (\<lambda>c. c \<noteq> CHR '' '') s = []"
    by auto
  show ?thesis unfolding split_space_1_def d by simp
qed

lemma split_with_space:
  assumes "CHR '' '' \<in> set s"
  shows "split_space_1 s =
           [takeWhile (\<lambda>c. c \<noteq> CHR '' '') s, tl (dropWhile (\<lambda>c. c \<noteq> CHR '' '') s)]"
proof (cases "dropWhile (\<lambda>c. c \<noteq> CHR '' '') s")
  case Nil
  with assms show ?thesis by auto
next
  case (Cons c rest)
  show ?thesis unfolding split_space_1_def Cons by simp
qed

lemma extract_no_space:
  "CHR '' '' \<notin> set s \<Longrightarrow>
     list_getitem (split_space_1 s) (Suc 0) = Inl (IndexError ''list index out of range'')"
  by (simp add: split_no_space list_getitem_def)

lemma extract_with_space:
  "CHR '' '' \<in> set s \<Longrightarrow>
     list_getitem (split_space_1 s) (Suc 0) = Inr (tl (dropWhile (\<lambda>c. c \<noteq> CHR '' '') s))"
  by (simp add: split_with_space list_getitem_def)

lemma starts_with_append: "starts_with n (n @ r)"
  by (induction n) simp_all

lemma contains_suffix: "contains n (p @ n)"
proof (induction p)
  case Nil
  have "starts_with n (n @ [])" by (rule starts_with_append)
  then show ?case by (cases n) simp_all
next
  case (Cons c p)
  then show ?case by simp
qed

subsection \<open>Lookups raise only \<open>KeyError\<close>\<close>

lemma body_event_field_Exception:
  "body_event_field b k = Inl e \<Longrightarrow> is_Exception e"
  by (auto simp add: body_event_field_def body_event_def getitem_def split: option.splits)

subsection \<open>The trace of one call\<close>

lemma says_append: "says (xs @ ys) = says xs @ says ys"
  by (induction xs rule: says.induct) simp_all

lemma call_say_trace: "trace (snd (call_say say t s)) = trace s @ [Say t]"
  by (simp add: call_say_def split: prod.splits)

lemma call_say_ok:
  "fst (say t (world s)) = None \<Longrightarrow> fst (call_say say t s) = Inr ()"
  by (cases "say t (world s)") (simp add: call_say_def)

lemma says_call_say:
  "says (trace (snd (call_say say t s))) = says (trace s) @ [t]"
  by (simp add: call_say_trace says_append)

lemma says_log_info: "says (trace (log_info m s)) = says (trace s)"
  by (simp add: log_info_def says_append)

lemma says_log_error: "says (trace (log_error m s)) = says (trace s)"
  by (simp add: log_error_def says_append)

lemma says_except_branch:
  "says (trace (snd (except_branch say e s))) = says (trace s) @ [error_message e]"
proof -
  let ?s1 = "log_error (Text (''An error occurred: '' @ str_exn e)) s"
  have "snd (except_branch say e s) = snd (call_say say (error_message e) ?s1)"
    by (simp add: except_branch_def Let_def split: prod.splits sum.splits)
  then show ?thesis
    by (simp add: says_call_say says_log_error)
qed

lemma except_branch_returns:
  assumes "fst (say (error_message e) (world s)) = None"
  shows "fst (except_branch say e s) = Returned"
proof -
  let ?s1 = "log_error (Text (''An error occurred: '' @ str_exn e)) s"
  have "world ?s1 = world s" by (simp add: log_error_def)
  with assms have "fst (call_say say (error_message e) ?s1) = Inr ()"
    by (simp add: call_say_ok)
  then show ?thesis
    by (cases "call_say say (error_message e) ?s1") (simp add: except_branch_def Let_def)
qed

subsection \<open>The paths through the \<open>try\<close> block\<close>

lemma try_block_text_fails:
  "body_event_field b ''text'' = Inl e \<Longrightarrow> try_block say b s = (Inl e, s)"
  by (simp add: try_block_def)

lemma try_block_no_space:
  "body_event_field b ''text'' = Inr t \<Longrightarrow> CHR '' '' \<notin> set t \<Longrightarrow>
     try_block say b s = (Inl (IndexError ''list index out of range''), s)"
  by (simp add: try_block_def extract_no_space)

lemma try_block_user_fails:
  "body_event_field b ''text'' = Inr t \<Longrightarrow> CHR '' '' \<in> set t \<Longrightarrow>
   body_event_field b ''user'' = Inl e \<Longrightarrow>
     try_block say b s = (Inl e, s)"
  by (simp add: try_block_def extract_with_space)

lemma try_block_posts:
  assumes "body_event_field b ''text'' = Inr t" and "CHR '' '' \<in> set t"
    and "body_event_field b ''user'' = Inr u"
  shows "try_block say b s =
     (case call_say say (ack_message u)
             (log_info (Text (''Received query from user '' @ u @ '': ''
                                @ tl (dropWhile (\<lambda>c. c \<noteq> CHR '' '') t))) s) of
        (Inl e, s2) \<Rightarrow> (Inl e, s2)
      | (Inr x, s2) \<Rightarrow>
          call_say say (final_message ''Hello World!'')
            (log_info (AgentResponse [(''input'', tl (dropWhile (\<lambda>c. c \<noteq> CHR '' '') t)),
                                      (''output'', ''Hello World!'')]) s2))"
  using assms
  by (simp add: try_block_def extract_with_space getitem_def Let_def
      split: prod.splits sum.splits)

text \<open>
  When the \<open>try\<close> block ends, either a lookup or the extraction raised and nothing
  was said, or the acknowledgement was said and \<open>say\<close> raised, or both messages were
  said.
\<close>

lemma try_block_says:
  assumes "try_block say b s = (r, s')"
  shows "(\<exists>e. r = Inl e \<and> is_Exception e \<and> s' = s)
       \<or> (\<exists>u. body_event_field b ''user'' = Inr u \<and>
             (says (trace s') = says (trace s) @ [ack_message u] \<and> r \<noteq> Inr ()
            \<or> says (trace s') = says (trace s) @ [ack_message u, final_message ''Hello World!'']))"
proof (cases "body_event_field b ''text''")
  case (Inl e)
  with assms show ?thesis
    by (auto simp add: try_block_text_fails dest: body_event_field_Exception)
next
  case tx: (Inr t)
  show ?thesis
  proof (cases "CHR '' '' \<in> set t")
    case False
    with tx assms show ?thesis by (auto simp add: try_block_no_space)
  next
    case space: True
    show ?thesis
    proof (cases "body_event_field b ''user''")
      case (Inl e)
      with tx space assms show ?thesis
        by (auto simp add: try_block_user_fails dest: body_event_field_Exception)
    next
      case (Inr u)
      let ?s1 = "log_info (Text (''Received query from user '' @ u @ '': ''
                                @ tl (dropWhile (\<lambda>c. c \<noteq> CHR '' '') t))) s"
      obtain r1 s2 where ack: "call_say say (ack_message u) ?s1 = (r1, s2)"
        by (cases "call_say say (ack_message u) ?s1")
      have says2: "says (trace s2) = says (trace s) @ [ack_message u]"
        using says_call_say [of say "ack_message u" ?s1] ack by (simp add: says_log_info)
      show ?thesis
      proof (cases r1)
        case (Inl e)
        with assms tx space Inr ack have "r = Inl e" "s' = s2"
          by (simp_all add: try_block_posts)
        with says2 Inr show ?thesis by auto
      next
        case r1: (Inr x)
        let ?s3 = "log_info (AgentResponse [(''input'', tl (dropWhile (\<lambda>c. c \<noteq> CHR '' '') t)),
                                      (''output'', ''Hello World!'')]) s2"
        from assms tx space Inr ack r1
        have "s' = snd (call_say say (final_message ''Hello World!'') ?s3)"
          by (simp add: try_block_posts)
        then have "says (trace s') = says (trace s) @ [ack_message u, final_message ''Hello World!'']"
          by (simp add: says_call_say says_log_info says2)
        with Inr show ?thesis by auto
      qed
    qed
  qed
qed

lemma try_block_completes:
  assumes "body_event_field b ''text'' = Inr t" and "CHR '' '' \<in> set t"
    and "body_event_field b ''user'' = Inr u"
    and "\<forall>m w'. fst (say m w') = None"
  shows "fst (try_block say b s) = Inr ()"
proof -
  let ?s1 = "log_info (Text (''Received query from user '' @ u @ '': ''
                                @ tl (dropWhile (\<lambda>c. c \<noteq> CHR '' '') t))) s"
  obtain r1 s2 where ack: "call_say say (ack_message u) ?s1 = (r1, s2)"
    by (cases "call_say say (ack_message u) ?s1")
  have "fst (call_say say (ack_message u) ?s1) = Inr ()"
    using assms(4) by (simp add: call_say_ok)
  with ack have r1: "r1 = Inr ()" by simp
  show ?thesis
    unfolding try_block_posts [OF assms(1-3)] ack r1
    using assms(4) by (simp add: call_say_ok)
qed

lemma try_block_raises_Exception:
  assumes "\<forall>m w'. fst (say m w') = None" and "fst (try_block say b s) = Inl e"
  shows "is_Exception e"
proof (cases "body_event_field b ''text''")
  case (Inl e')
  with assms(2) show ?thesis
    by (auto simp add: try_block_text_fails dest: body_event_field_Exception)
next
  case tx: (Inr t)
  show ?thesis
  proof (cases "CHR '' '' \<in> set t")
    case False
    with tx assms(2) show ?thesis by (auto simp add: try_block_no_space)
  next
    case space: True
    show ?thesis
    proof (cases "body_event_field b ''user''")
      case (Inl e')
      with tx space assms(2) show ?thesis
        by (auto simp add: try_block_user_fails dest: body_event_field_Exception)
    next
      case (Inr u)
      from try_block_completes [OF tx space Inr assms(1)] assms(2) show ?thesis by simp
    qed
  qed
qed

subsection \<open>What the handler posts after each ending of the \<open>try\<close> block\<close>

lemma posted_after_exception:
  assumes "try_block say b \<lparr>trace = [], world = w\<rparr> = (Inl e, s')" and "is_Exception e"
  shows "posted say b w = says (trace s') @ [error_message e]"
  using assms by (simp add: posted_def handle_app_mention_def says_except_branch)

lemma posted_after_success:
  assumes "try_block say b \<lparr>trace = [], world = w\<rparr> = (Inr (), s')"
  shows "posted say b w = says (trace s')"
  using assms by (simp add: posted_def handle_app_mention_def)

lemma posted_after_escape:
  assumes "try_block say b \<lparr>trace = [], world = w\<rparr> = (Inl e, s')" and "\<not> is_Exception e"
  shows "posted say b w = says (trace s')"
  using assms by (simp add: posted_def handle_app_mention_def)

lemma say_ok_returns: "\<forall>m w'. fst (say_ok m w') = None"
  by (simp add: say_ok_def)

section \<open>The claims\<close>

subsection \<open>C2: the handler always answers\<close>

text \<open>
  C2. For every event body, \<open>handle_app_mention\<close> passes at least one message to
  \<open>say\<close>, whether the \<open>try\<close> block completes or raises.
\<close>

theorem handler_always_replies: "posted say b w \<noteq> []"
proof -
  obtain r s' where tb: "try_block say b \<lparr>trace = [], world = w\<rparr> = (r, s')"
    by (cases "try_block say b \<lparr>trace = [], world = w\<rparr>")
  show ?thesis
  proof (cases r)
    case (Inl e)
    show ?thesis
    proof (cases "is_Exception e")
      case True
      with tb Inl show ?thesis by (simp add: posted_after_exception)
    next
      case False
      with tb Inl try_block_says [OF tb] show ?thesis
        by (auto simp add: posted_after_escape)
    qed
  next
    case (Inr x)
    with tb try_block_says [OF tb] show ?thesis
      by (auto simp add: posted_after_success)
  qed
qed

theorem handler_always_replies_witness:
  "posted say_ok \<lparr>event = None, envelope = []\<rparr> 0 \<noteq> []
   \<and> posted say_ok \<lparr>event = None, envelope = []\<rparr> 0 = [error_message (KeyError ''event'')]"
proof -
  have "posted say_ok \<lparr>event = None, envelope = []\<rparr> 0 = [error_message (KeyError ''event'')]"
    by code_simp
  with handler_always_replies [of say_ok "\<lparr>event = None, envelope = []\<rparr>" 0]
  show ?thesis by simp
qed

subsection \<open>C1: the error reply carries the exception's text\<close>

text \<open>
  C1 says that the reply posted after an exception never contains the exception's text.
  The \<open>except\<close> branch formats the exception into the reply: for a bare mention the
  extraction raises \<open>IndexError\<close>, and the one message posted ends with its text,
  \<open>list index out of range\<close>.
\<close>

theorem error_reply_leaks_exception_text_counterexample:
  "fst (try_block say_ok body_bare_mention \<lparr>trace = [], world = 0\<rparr>)
     = Inl (IndexError ''list index out of range'')
   \<and> posted say_ok body_bare_mention 0
     = [''Oops! I ran into an issue. Could you please rephrase your request? The error was: list index out of range'']
   \<and> contains (str_exn (IndexError ''list index out of range''))
        (last (posted say_ok body_bare_mention 0))"
  by code_simp

text \<open>
  C1, as the code has it. Whenever the \<open>try\<close> block raises an exception \<open>e\<close> that
  \<open>except Exception\<close> catches, the last message posted is the fixed sentence
  \<open>Oops! ... The error was: \<close> followed by \<open>str(e)\<close>: the reply contains the
  exception's text verbatim.
\<close>

theorem error_reply_echoes_exception_text:
  assumes "fst (try_block say b \<lparr>trace = [], world = w\<rparr>) = Inl e" and "is_Exception e"
  shows "last (posted say b w) = error_message e
       \<and> contains (str_exn e) (last (posted say b w))"
proof -
  from assms(1) obtain s' where "try_block say b \<lparr>trace = [], world = w\<rparr> = (Inl e, s')"
    by (cases "try_block say b \<lparr>trace = [], world = w\<rparr>") simp
  with assms(2) have "last (posted say b w) = error_message e"
    by (simp add: posted_after_exception)
  moreover have "contains (str_exn e) (error_message e)"
    unfolding error_message_def by (rule contains_suffix)
  ultimately show ?thesis by simp
qed

theorem error_reply_echoes_exception_text_witness:
  "fst (try_block say_ok body_without_user \<lparr>trace = [], world = 0\<rparr>) = Inl (KeyError ''user'')
   \<and> is_Exception (KeyError ''user'')
   \<and> last (posted say_ok body_without_user 0) = error_message (KeyError ''user'')
   \<and> contains (str_exn (KeyError ''user'')) (last (posted say_ok body_without_user 0))"
proof -
  have h1: "fst (try_block say_ok body_without_user \<lparr>trace = [], world = 0\<rparr>)
              = Inl (KeyError ''user'')"
    by code_simp
  have h2: "is_Exception (KeyError ''user'')" by simp
  from error_reply_echoes_exception_text [OF h1 h2] h1 h2 show ?thesis by blast
qed

subsection \<open>C3: the answer is a placeholder\<close>

text \<open>
  C3 says that the final message is the placeholder for every event whose text contains
  a space. The handler also reads \<open>body['event']['user']\<close> before it posts anything:
  for an event with a question and no \<open>user\<close> field the final (and only) message is the
  error reply for \<open>KeyError('user')\<close>.
\<close>

theorem final_message_without_user_counterexample:
  "body_event_field body_without_user ''text'' = Inr ''<@U0BOT> hi''
   \<and> CHR '' '' \<in> set ''<@U0BOT> hi''
   \<and> posted say_ok body_without_user 0 = [error_message (KeyError ''user'')]
   \<and> last (posted say_ok body_without_user 0)
       \<noteq> ''Here is what I found:'' @ [newline, newline] @ ''Hello World!''"
  by code_simp

text \<open>
  C3, as the code has it. For every event whose text contains at least one space and
  that has a \<open>user\<close> field, with a callback \<open>say\<close> that does not raise, the final
  message posted is the fixed string \<open>Here is what I found:\n\nHello World!\<close>, whatever
  the question is.
\<close>

theorem final_message_is_placeholder:
  assumes "body_event_field b ''text'' = Inr t" and "CHR '' '' \<in> set t"
    and "body_event_field b ''user'' = Inr u"
    and "\<forall>m w'. fst (say m w') = None"
  shows "last (posted say b w) = ''Here is what I found:'' @ [newline, newline] @ ''Hello World!''"
proof -
  have "fst (try_block say b \<lparr>trace = [], world = w\<rparr>) = Inr ()"
    using assms by (rule try_block_completes)
  then obtain s' where tb: "try_block say b \<lparr>trace = [], world = w\<rparr> = (Inr (), s')"
    by (cases "try_block say b \<lparr>trace = [], world = w\<rparr>") simp
  from try_block_says [OF tb] have "last (says (trace s')) = final_message ''Hello World!''"
    by auto
  then show ?thesis
    by (simp add: posted_after_success [OF tb] final_message_def)
qed

theorem final_message_is_placeholder_witness:
  "body_event_field body_active_users_other_fields ''text''
     = Inr ''<@U0BOT> how many active users are there''
   \<and> CHR '' '' \<in> set ''<@U0BOT> how many active users are there''
   \<and> body_event_field body_active_users_other_fields ''user'' = Inr ''U1''
   \<and> (\<forall>m w'. fst (say_ok m w') = None)
   \<and> last (posted say_ok body_active_users_other_fields 0)
       = ''Here is what I found:'' @ [newline, newline] @ ''Hello World!''"
proof -
  have h1: "body_event_field body_active_users_other_fields ''text''
              = Inr ''<@U0BOT> how many active users are there''"
    by code_simp
  have h2: "CHR '' '' \<in> set ''<@U0BOT> how many active users are there''" by simp
  have h3: "body_event_field body_active_users_other_fields ''user'' = Inr ''U1''"
    by code_simp
  from final_message_is_placeholder [OF h1 h2 h3 say_ok_returns] h1 h2 h3 say_ok_returns
  show ?thesis by blast
qed

subsection \<open>C4: no agent, database or LLM call\<close>

text \<open>
  C4. For every event body and callback, every effect of \<open>handle_app_mention\<close> is a
  call of \<open>say\<close> or of the logger: it never invokes the LLM client, the SQL agent or
  the database.
\<close>

theorem handler_effects_only_say_and_log:
  "list_all is_say_or_log (trace (snd (handle_app_mention say b w)))"
  by (auto simp add: handle_app_mention_def try_block_def except_branch_def
      call_say_def log_info_def log_error_def getitem_def Let_def
      split: sum.splits prod.splits option.splits)

theorem handler_effects_only_say_and_log_witness:
  "list_all is_say_or_log (trace (snd (handle_app_mention say_ok body_active_users 0)))
   \<and> length (trace (snd (handle_app_mention say_ok body_active_users 0))) = 4"
proof -
  have "length (trace (snd (handle_app_mention say_ok body_active_users 0))) = 4"
    by code_simp
  with handler_effects_only_say_and_log [of say_ok body_active_users 0]
  show ?thesis by simp
qed

subsection \<open>C5: acknowledgement, then answer\<close>

text \<open>
  C5. On the success path (the \<open>try\<close> block completes without an exception) the
  handler posts exactly two messages, in this order: first the acknowledgement
  \<open>Hey <@u>, I'm on it! Let me check the data for you...\<close>, addressed to the user
  \<open>u\<close> of the event, then the final answer
  \<open>Here is what I found:\n\nHello World!\<close>. The acknowledgement is the first
  message, so it is never posted after the final one.
\<close>

theorem success_path_posts_ack_then_answer:
  assumes "fst (try_block say b \<lparr>trace = [], world = w\<rparr>) = Inr ()"
  shows "\<exists>u. body_event_field b ''user'' = Inr u
           \<and> posted say b w =
               [''Hey <@'' @ u @ ''>, I'' @ [CHR 0x27]
                  @ ''m on it! Let me check the data for you...'',
                ''Here is what I found:'' @ [CHR 0x0A, CHR 0x0A] @ ''Hello World!'']"
proof -
  from assms obtain s' where tb: "try_block say b \<lparr>trace = [], world = w\<rparr> = (Inr (), s')"
    by (cases "try_block say b \<lparr>trace = [], world = w\<rparr>") simp
  from try_block_says [OF tb]
  obtain u where u: "body_event_field b ''user'' = Inr u"
    and p: "posted say b w = [ack_message u, final_message ''Hello World!'']"
    by (auto simp add: posted_after_success [OF tb])
  have ack: "ack_message u = ''Hey <@'' @ u @ ''>, I'' @ [CHR 0x27]
                               @ ''m on it! Let me check the data for you...''"
    by (simp add: ack_message_def quote_def)
  have fin: "final_message ''Hello World!''
               = ''Here is what I found:'' @ [CHR 0x0A, CHR 0x0A] @ ''Hello World!''"
    by (simp add: final_message_def newline_def)
  from u p show ?thesis
    unfolding ack fin by blast
qed

theorem success_path_posts_ack_then_answer_witness:
  "fst (try_block say_ok body_active_users \<lparr>trace = [], world = 0\<rparr>) = Inr ()
   \<and> body_event_field body_active_users ''user'' = Inr ''U1''
   \<and> posted say_ok body_active_users 0 =
       [''Hey <@U1>, I'' @ [CHR 0x27] @ ''m on it! Let me check the data for you...'',
        ''Here is what I found:'' @ [CHR 0x0A, CHR 0x0A] @ ''Hello World!'']"
proof -
  have h: "fst (try_block say_ok body_active_users \<lparr>trace = [], world = 0\<rparr>) = Inr ()"
    by code_simp
  have u: "body_event_field body_active_users ''user'' = Inr ''U1''"
    by code_simp
  from success_path_posts_ack_then_answer [OF h] u h
  show ?thesis by auto
qed

subsection \<open>C7: the active-users question\<close>

text \<open>
  C7 says that the reply to the question "how many active users are there" contains
  \<open>42\<close> when the database holds 42 active users. The handler consults no database:
  it posts the acknowledgement and the placeholder, and the placeholder does not contain
  \<open>42\<close>.
\<close>

theorem active_users_reply_lacks_42_counterexample:
  "posted say_ok body_active_users 0 = [ack_message ''U1'', final_message ''Hello World!'']
   \<and> \<not> contains ''42'' (last (posted say_ok body_active_users 0))"
  by code_simp

text \<open>
  C7, as the code has it. For the question "how many active users are there" after the
  mention, from any user and with a callback that does not raise, the handler posts the
  acknowledgement and then the placeholder \<open>Here is what I found:\n\nHello World!\<close>,
  whatever the database holds; the final reply does not contain \<open>42\<close>.
\<close>

theorem active_users_question_gets_placeholder:
  assumes "body_event_field b ''text'' = Inr (mention @ '' how many active users are there'')"
    and "body_event_field b ''user'' = Inr u"
    and "\<forall>m w'. fst (say m w') = None"
  shows "posted say b w = [ack_message u, final_message ''Hello World!'']
       \<and> \<not> contains ''42'' (last (posted say b w))"
proof -
  have space: "CHR '' '' \<in> set (mention @ '' how many active users are there'')"
    by simp
  have "fst (try_block say b \<lparr>trace = [], world = w\<rparr>) = Inr ()"
    using assms(1) space assms(2,3) by (rule try_block_completes)
  then obtain s' where tb: "try_block say b \<lparr>trace = [], world = w\<rparr> = (Inr (), s')"
    by (cases "try_block say b \<lparr>trace = [], world = w\<rparr>") simp
  from try_block_says [OF tb] assms(2)
  have p: "posted say b w = [ack_message u, final_message ''Hello World!'']"
    by (auto simp add: posted_after_success [OF tb])
  have "\<not> contains ''42'' (final_message ''Hello World!'')"
    by (simp add: final_message_def newline_def)
  with p show ?thesis by simp
qed

theorem active_users_question_gets_placeholder_witness:
  "body_event_field body_active_users_other_fields ''text''
     = Inr (''<@U0BOT>'' @ '' how many active users are there'')
   \<and> body_event_field body_active_users_other_fields ''user'' = Inr ''U1''
   \<and> (\<forall>m w'. fst (say_ok m w') = None)
   \<and> posted say_ok body_active_users_other_fields 0
       = [ack_message ''U1'', final_message ''Hello World!'']
   \<and> \<not> contains ''42'' (last (posted say_ok body_active_users_other_fields 0))"
proof -
  have h1: "body_event_field body_active_users_other_fields ''text''
              = Inr (''<@U0BOT>'' @ '' how many active users are there'')"
    by code_simp
  have h2: "body_event_field body_active_users_other_fields ''user'' = Inr ''U1''"
    by code_simp
  from active_users_question_gets_placeholder [OF h1 h2 say_ok_returns] h1 h2 say_ok_returns
  show ?thesis by blast
qed

subsection \<open>C8: a bare mention\<close>

text \<open>
  C8. For every event whose text contains no space, the extraction
  \<open>body['event']['text'].split(' ', 1)[1]\<close> raises \<open>IndexError\<close>, the \<open>except\<close>
  branch runs, and the only message posted is the error reply: no acknowledgement is
  sent.
\<close>

theorem bare_mention_only_error_reply:
  assumes "body_event_field b ''text'' = Inr t" and "CHR '' '' \<notin> set t"
  shows "fst (try_block say b \<lparr>trace = [], world = w\<rparr>)
           = Inl (IndexError ''list index out of range'')
       \<and> posted say b w = [error_message (IndexError ''list index out of range'')]"
proof -
  have tb: "try_block say b \<lparr>trace = [], world = w\<rparr>
              = (Inl (IndexError ''list index out of range''), \<lparr>trace = [], world = w\<rparr>)"
    using assms by (rule try_block_no_space)
  have "posted say b w = says (trace \<lparr>trace = [], world = w\<rparr>)
                           @ [error_message (IndexError ''list index out of range'')]"
    using tb by (rule posted_after_exception) simp
  with tb show ?thesis by simp
qed

theorem bare_mention_only_error_reply_witness:
  "body_event_field body_bare_mention ''text'' = Inr ''<@U0BOT>''
   \<and> CHR '' '' \<notin> set ''<@U0BOT>''
   \<and> fst (try_block say_ok body_bare_mention \<lparr>trace = [], world = 0\<rparr>)
       = Inl (IndexError ''list index out of range'')
   \<and> posted say_ok body_bare_mention 0
       = [error_message (IndexError ''list index out of range'')]"
proof -
  have h1: "body_event_field body_bare_mention ''text'' = Inr ''<@U0BOT>''"
    by code_simp
  have h2: "CHR '' '' \<notin> set ''<@U0BOT>''" by simp
  from bare_mention_only_error_reply [OF h1 h2, where say = say_ok and w = 0] h1 h2
  show ?thesis by blast
qed

subsection \<open>C9: only the text and the user matter\<close>

text \<open>
  C9. Two invocations (with the same callback) on bodies whose
  \<open>body['event']['text']\<close> and \<open>body['event']['user']\<close> are equal post the same
  sequence of messages: no other field of the body influences what is posted.
\<close>

theorem posted_depends_only_on_text_and_user:
  assumes "body_event_field b1 ''text'' = body_event_field b2 ''text''"
    and "body_event_field b1 ''user'' = body_event_field b2 ''user''"
  shows "posted say b1 w = posted say b2 w"
proof -
  have "try_block say b1 s = try_block say b2 s" for s
    unfolding try_block_def assms ..
  then have "handle_app_mention say b1 w = handle_app_mention say b2 w"
    by (simp add: handle_app_mention_def)
  then show ?thesis by (simp add: posted_def)
qed

theorem posted_depends_only_on_text_and_user_witness:
  "body_event_field body_active_users ''text''
     = body_event_field body_active_users_other_fields ''text''
   \<and> body_event_field body_active_users ''user''
     = body_event_field body_active_users_other_fields ''user''
   \<and> body_active_users \<noteq> body_active_users_other_fields
   \<and> posted say_ok body_active_users 0 = posted say_ok body_active_users_other_fields 0"
proof -
  have h1: "body_event_field body_active_users ''text''
              = body_event_field body_active_users_other_fields ''text''"
    by code_simp
  have h2: "body_event_field body_active_users ''user''
              = body_event_field body_active_users_other_fields ''user''"
    by code_simp
  have h3: "body_active_users \<noteq> body_active_users_other_fields"
    by (simp add: body_active_users_def body_active_users_other_fields_def)
  from posted_depends_only_on_text_and_user [OF h1 h2, where say = say_ok and w = 0] h1 h2 h3
  show ?thesis by blast
qed

subsection \<open>C10: no exception leaves the handler\<close>

text \<open>
  C10. When the callback \<open>say\<close> never raises, \<open>handle_app_mention\<close> returns
  normally for every body, also for bodies without the \<open>event\<close>, \<open>text\<close> or
  \<open>user\<close> key: every exception of the \<open>try\<close> block is caught and answered.
\<close>

theorem handler_never_raises_when_say_returns:
  assumes "\<forall>m w'. fst (say m w') = None"
  shows "fst (handle_app_mention say b w) = Returned"
proof -
  obtain r s' where tb: "try_block say b \<lparr>trace = [], world = w\<rparr> = (r, s')"
    by (cases "try_block say b \<lparr>trace = [], world = w\<rparr>")
  show ?thesis
  proof (cases r)
    case (Inl e)
    with tb have "fst (try_block say b \<lparr>trace = [], world = w\<rparr>) = Inl e"
      by simp
    with assms have "is_Exception e"
      by (rule try_block_raises_Exception)
    with tb Inl assms show ?thesis
      by (simp add: handle_app_mention_def except_branch_returns)
  next
    case (Inr x)
    with tb show ?thesis by (simp add: handle_app_mention_def)
  qed
qed

theorem handler_never_raises_when_say_returns_witness:
  "(\<forall>m w'. fst (say_ok m w') = None)
   \<and> fst (handle_app_mention say_ok \<lparr>event = None, envelope = []\<rparr> 0) = Returned
   \<and> fst (handle_app_mention say_ok \<lparr>event = Some [], envelope = []\<rparr> 0) = Returned
   \<and> fst (handle_app_mention say_ok body_without_user 0) = Returned"
  using say_ok_returns
    handler_never_raises_when_say_returns [OF say_ok_returns, of "\<lparr>event = None, envelope = []\<rparr>" 0]
    handler_never_raises_when_say_returns [OF say_ok_returns, of "\<lparr>event = Some [], envelope = []\<rparr>" 0]
    handler_never_raises_when_say_returns [OF say_ok_returns, of body_without_user 0]
  by blast

end
